theory Spec2Isabelle
  imports Main
begin

section \<open>Startup configuration of the leader election service (\<open>kvdistlead/config.py\<close>)\<close>

text \<open>
  The module reads the process environment, coerces each setting to its type and
  returns one dictionary. This theory embeds its five functions
  (\<open>str_to_bool\<close>, \<open>get_int\<close>, \<open>get_float\<close>, \<open>get_required\<close>, \<open>get_config\<close>)
  together with the Python built-ins they call (\<open>str.lower\<close>, \<open>str.strip\<close>, \<open>int\<close>,
  \<open>float\<close>, \<open>os.getenv\<close>).

  Conventions of the model.
  \<^item> A Python \<open>str\<close> is a \<^typ>\<open>string\<close>; a character stands for the code point of
    the same number, U+0000 to U+00FF. Text beyond that range is outside the model.
  \<^item> The process environment is a map from names to values; \<open>os.getenv\<close> is a
    lookup in it. The module only reads the environment.
  \<^item> A raised exception is the \<open>Inl\<close> branch of a sum; the exception class and its
    message are kept as the source builds them.
  \<^item> Floating-point values are a type parameter \<open>'f\<close>. Which strings \<open>float\<close>
    accepts is modelled concretely; the double that an accepted string denotes is
    given by a function of the interpreter record.
\<close>

subsection \<open>Data\<close>

type_synonym environ = "string \<rightharpoonup> string"

datatype error = ValueError string | RuntimeError string

datatype 'f pyval = PNone | PStr string | PInt int | PFloat 'f | PBool bool

type_synonym 'f config = "string \<rightharpoonup> 'f pyval"

text \<open>
  What the interpreter contributes and the source does not fix: the limit on the
  number of digits \<open>int\<close> converts (\<open>sys.get_int_max_str_digits()\<close>, 4300 unless
  reconfigured, 0 for no limit), and the double denoted by a well-formed float literal.
\<close>

record 'f interp =
  int_max_str_digits :: nat
  float_of_literal :: "string \<Rightarrow> 'f"

subsection \<open>Built-ins on strings\<close>

definition getenv :: "environ \<Rightarrow> string \<Rightarrow> string option" where
  "getenv env name = env name"

definition getenv_default :: "environ \<Rightarrow> string \<Rightarrow> string \<Rightarrow> string" where
  "getenv_default env name dflt = (case env name of None \<Rightarrow> dflt | Some v \<Rightarrow> v)"

text \<open>\<open>str.lower\<close> on U+0000..U+00FF: A--Z and the Latin-1 capitals move up by 32.\<close>

definition py_lower_char :: "char \<Rightarrow> char" where
  "py_lower_char c =
     (let n = (of_char c :: nat)
      in if (65 \<le> n \<and> n \<le> 90) \<or> (192 \<le> n \<and> n \<le> 214) \<or> (216 \<le> n \<and> n \<le> 222)
         then char_of (n + 32) else c)"

definition py_lower :: "string \<Rightarrow> string" where
  "py_lower s = map py_lower_char s"

text \<open>
  \<open>str.isspace\<close> per character, as \<open>str.strip\<close> uses it: TAB, LF, VT, FF, CR,
  FS, GS, RS, US, space, NEL and NBSP.
\<close>

definition py_isspace :: "char \<Rightarrow> bool" where
  "py_isspace c =
     (let n = (of_char c :: nat)
      in (9 \<le> n \<and> n \<le> 13) \<or> (28 \<le> n \<and> n \<le> 32) \<or> n = 133 \<or> n = 160)"

definition py_strip :: "string \<Rightarrow> string" where
  "py_strip s = rev (dropWhile py_isspace (rev (dropWhile py_isspace s)))"

text \<open>
  The number parsers skip a smaller set at both ends: FS, GS, RS and US are not
  white space for \<open>int\<close> and \<open>float\<close>.
\<close>

definition num_isspace :: "char \<Rightarrow> bool" where
  "num_isspace c =
     (let n = (of_char c :: nat)
      in (9 \<le> n \<and> n \<le> 13) \<or> n = 32 \<or> n = 133 \<or> n = 160)"

definition num_strip :: "string \<Rightarrow> string" where
  "num_strip s = rev (dropWhile num_isspace (rev (dropWhile num_isspace s)))"

definition is_digit :: "char \<Rightarrow> bool" where
  "is_digit c = (let n = (of_char c :: nat) in 48 \<le> n \<and> n \<le> 57)"

definition digit_val :: "char \<Rightarrow> int" where
  "digit_val c = int (of_char c) - 48"

text \<open>An optional sign: the sign read and the text after it.\<close>

fun split_sign :: "string \<Rightarrow> bool \<times> string" where
  "split_sign [] = (False, [])"
| "split_sign (c # cs) =
     (if c = CHR ''-'' then (True, cs)
      else if c = CHR ''+'' then (False, cs)
      else (False, c # cs))"

subsection \<open>\<open>int(raw)\<close>\<close>

text \<open>
  Digits with single underscores between them: \<open>1_000\<close> is accepted, \<open>_1\<close>,
  \<open>1_\<close> and \<open>1__0\<close> are not.
\<close>

fun digitpart :: "string \<Rightarrow> bool" where
  "digitpart [] = False"
| "digitpart [c] = is_digit c"
| "digitpart (c # d # r) =
     (is_digit c \<and> (if d = CHR ''_'' then digitpart r else digitpart (d # r)))"

definition digits_of :: "string \<Rightarrow> string" where
  "digits_of s = filter (\<lambda>c. c \<noteq> CHR ''_'') s"

definition decimal_value :: "string \<Rightarrow> int" where
  "decimal_value ds = foldl (\<lambda>a c. 10 * a + digit_val c) 0 ds"

text \<open>
  \<open>int\<close> in base 10: white space at both ends, an optional sign, a digit part. A
  \<open>ValueError\<close> is \<open>None\<close>; it is also raised when the digits outnumber a non-zero
  \<open>int_max_str_digits\<close>.
\<close>

definition py_int :: "'f interp \<Rightarrow> string \<Rightarrow> int option" where
  "py_int py raw =
     (let (neg, body) = split_sign (num_strip raw);
          ds = digits_of body
      in if \<not> digitpart body then None
         else if 0 < int_max_str_digits py \<and> int_max_str_digits py < length ds then None
         else Some (if neg then - decimal_value ds else decimal_value ds))"

subsection \<open>\<open>float(raw)\<close>\<close>

text \<open>
  Underscores in a float literal must stand between two digits; the check runs over
  the whole literal, \<open>prev\<close> being the character before.
\<close>

fun underscores_ok :: "char \<Rightarrow> string \<Rightarrow> bool" where
  "underscores_ok prev [] = (prev \<noteq> CHR ''_'')"
| "underscores_ok prev (c # cs) =
     (if c = CHR ''_'' then is_digit prev \<and> underscores_ok c cs
      else if prev = CHR ''_'' then is_digit c \<and> underscores_ok c cs
      else underscores_ok c cs)"

definition ascii_lower_char :: "char \<Rightarrow> char" where
  "ascii_lower_char c =
     (let n = (of_char c :: nat) in if 65 \<le> n \<and> n \<le> 90 then char_of (n + 32) else c)"

definition is_inf_or_nan :: "string \<Rightarrow> bool" where
  "is_inf_or_nan s =
     (let t = map ascii_lower_char s in t = ''inf'' \<or> t = ''infinity'' \<or> t = ''nan'')"

text \<open>The exponent, when there is one: \<open>e\<close> or \<open>E\<close>, an optional sign, one digit or more.\<close>

fun exponent_ok :: "string \<Rightarrow> bool" where
  "exponent_ok [] = True"
| "exponent_ok (c # cs) =
     ((c = CHR ''e'' \<or> c = CHR ''E'') \<and>
      (let ds = snd (split_sign cs) in ds \<noteq> [] \<and> list_all is_digit ds))"

text \<open>
  A decimal literal without underscores: integer digits, an optional point with
  fraction digits, at least one digit in all, then the exponent.
\<close>

definition decimal_ok :: "string \<Rightarrow> bool" where
  "decimal_ok s =
     (let ip = takeWhile is_digit s;
          r = dropWhile is_digit s;
          (fp, r2) = (case r of
                        [] \<Rightarrow> ([], r)
                      | c # r' \<Rightarrow>
                          (if c = CHR ''.''
                           then (takeWhile is_digit r', dropWhile is_digit r')
                           else ([], r)))
      in \<not> (ip = [] \<and> fp = []) \<and> exponent_ok r2)"

definition float_literal_ok :: "string \<Rightarrow> bool" where
  "float_literal_ok raw =
     (let s = num_strip raw;
          t = snd (split_sign (digits_of s))
      in underscores_ok (CHR 0x00) s \<and> (is_inf_or_nan t \<or> decimal_ok t))"

definition py_float :: "'f interp \<Rightarrow> string \<Rightarrow> 'f option" where
  "py_float py raw = (if float_literal_ok raw then Some (float_of_literal py raw) else None)"

subsection \<open>The four coercers\<close>

fun str_to_bool :: "string option \<Rightarrow> bool \<Rightarrow> bool" where
  "str_to_bool None dflt = dflt"
| "str_to_bool (Some v) dflt =
     (py_lower v \<in> set [''1'', ''true'', ''yes'', ''y'', ''t''])"

definition integer_message :: "string \<Rightarrow> string \<Rightarrow> string" where
  "integer_message name raw =
     ''Environment variable '' @ name @ '' must be an integer, got '' @
     [CHR 0x27] @ raw @ [CHR 0x27]"

definition get_int :: "'f interp \<Rightarrow> environ \<Rightarrow> string \<Rightarrow> int \<Rightarrow> error + int" where
  "get_int py env name dflt =
     (case getenv env name of
        None \<Rightarrow> Inr dflt
      | Some raw \<Rightarrow>
          (case py_int py raw of
             Some v \<Rightarrow> Inr v
           | None \<Rightarrow> Inl (ValueError (integer_message name raw))))"

definition float_message :: "string \<Rightarrow> string \<Rightarrow> string" where
  "float_message name raw =
     ''Environment variable '' @ name @ '' must be a float, got '' @
     [CHR 0x27] @ raw @ [CHR 0x27]"

definition get_float :: "'f interp \<Rightarrow> environ \<Rightarrow> string \<Rightarrow> 'f \<Rightarrow> error + 'f" where
  "get_float py env name dflt =
     (case getenv env name of
        None \<Rightarrow> Inr dflt
      | Some raw \<Rightarrow>
          (case py_float py raw of
             Some v \<Rightarrow> Inr v
           | None \<Rightarrow> Inl (ValueError (float_message name raw))))"

definition required_message :: "string \<Rightarrow> string" where
  "required_message name = ''Environment variable '' @ name @ '' is required for startup''"

definition get_required :: "environ \<Rightarrow> string \<Rightarrow> error + string" where
  "get_required env name =
     (case getenv env name of
        None \<Rightarrow> Inl (RuntimeError (required_message name))
      | Some v \<Rightarrow>
          (if py_strip v = [] then Inl (RuntimeError (required_message name))
           else Inr v))"

subsection \<open>\<open>get_config\<close>\<close>

text \<open>
  The statements run in the source's order: the eight assignments, then the
  dictionary display, whose values are evaluated from top to bottom. The first
  exception ends the call. The float literal \<open>1.0\<close> of the source is the double
  that the text \<open>1.0\<close> denotes.
\<close>

definition opt_str :: "string option \<Rightarrow> 'f pyval" where
  "opt_str v = (case v of None \<Rightarrow> PNone | Some s \<Rightarrow> PStr s)"

text \<open>Sequencing under exceptions: the rest runs only when the call returned.\<close>

definition on_return :: "error + 'a \<Rightarrow> ('a \<Rightarrow> error + 'b) \<Rightarrow> error + 'b" where
  "on_return r k = (case r of Inl e \<Rightarrow> Inl e | Inr v \<Rightarrow> k v)"

definition get_config :: "'f interp \<Rightarrow> environ \<Rightarrow> error + 'f config" where
  "get_config py env =
     on_return (get_required env ''LOCK_KEY'') (\<lambda>lock_key.
     on_return (get_int py env ''LOCK_TTL_MS'' 15000) (\<lambda>lock_ttl_ms.
     on_return (get_int py env ''LOCK_RENEW_EVERY_MS'' 5000) (\<lambda>lock_renew_every_ms.
     on_return (get_int py env ''STANDBY_SLEEP_MS'' 2000) (\<lambda>standby_sleep_ms.
     let redis_host = getenv_default env ''REDIS_HOST'' ''redis'' in
     on_return (get_int py env ''REDIS_PORT'' 6379) (\<lambda>redis_port.
     on_return (get_int py env ''REDIS_DB'' 0) (\<lambda>redis_db.
     let redis_password = getenv env ''REDIS_PASSWORD'';
         instance_id = getenv env ''INSTANCE_ID'' in
     on_return (get_float py env ''REDIS_SOCKET_CONNECT_TIMEOUT'' (float_of_literal py ''1.0''))
       (\<lambda>connect_timeout.
     on_return (get_float py env ''REDIS_SOCKET_TIMEOUT'' (float_of_literal py ''1.0''))
       (\<lambda>socket_timeout.
     let retry = str_to_bool (Some (getenv_default env ''REDIS_RETRY_ON_TIMEOUT'' ''true'')) True in
     Inr (Map.empty
       (''INSTANCE_ID'' \<mapsto> opt_str instance_id,
        ''LOCK_KEY'' \<mapsto> PStr lock_key,
        ''LOCK_TTL_MS'' \<mapsto> PInt lock_ttl_ms,
        ''LOCK_RENEW_EVERY_MS'' \<mapsto> PInt lock_renew_every_ms,
        ''STANDBY_SLEEP_MS'' \<mapsto> PInt standby_sleep_ms,
        ''REDIS_HOST'' \<mapsto> PStr redis_host,
        ''REDIS_PORT'' \<mapsto> PInt redis_port,
        ''REDIS_DB'' \<mapsto> PInt redis_db,
        ''REDIS_PASSWORD'' \<mapsto> opt_str redis_password,
        ''REDIS_SOCKET_CONNECT_TIMEOUT'' \<mapsto> PFloat connect_timeout,
        ''REDIS_SOCKET_TIMEOUT'' \<mapsto> PFloat socket_timeout,
        ''REDIS_RETRY_ON_TIMEOUT'' \<mapsto> PBool retry))))))))))"

subsection \<open>The assembly as a list of per-field resolutions\<close>

text \<open>
  The twelve settings, and what \<open>get_config\<close> calls for each. \<open>assemble\<close> runs the
  resolutions of a list of fields in the order of the list and stops at the first
  exception; \<open>source_order\<close> is the order of the calls in \<open>get_config\<close>.
\<close>

datatype field =
    INSTANCE_ID | LOCK_KEY | LOCK_TTL_MS | LOCK_RENEW_EVERY_MS | STANDBY_SLEEP_MS
  | REDIS_HOST | REDIS_PORT | REDIS_DB | REDIS_PASSWORD
  | REDIS_SOCKET_CONNECT_TIMEOUT | REDIS_SOCKET_TIMEOUT | REDIS_RETRY_ON_TIMEOUT

fun key_of :: "field \<Rightarrow> string" where
  "key_of INSTANCE_ID = ''INSTANCE_ID''"
| "key_of LOCK_KEY = ''LOCK_KEY''"
| "key_of LOCK_TTL_MS = ''LOCK_TTL_MS''"
| "key_of LOCK_RENEW_EVERY_MS = ''LOCK_RENEW_EVERY_MS''"
| "key_of STANDBY_SLEEP_MS = ''STANDBY_SLEEP_MS''"
| "key_of REDIS_HOST = ''REDIS_HOST''"
| "key_of REDIS_PORT = ''REDIS_PORT''"
| "key_of REDIS_DB = ''REDIS_DB''"
| "key_of REDIS_PASSWORD = ''REDIS_PASSWORD''"
| "key_of REDIS_SOCKET_CONNECT_TIMEOUT = ''REDIS_SOCKET_CONNECT_TIMEOUT''"
| "key_of REDIS_SOCKET_TIMEOUT = ''REDIS_SOCKET_TIMEOUT''"
| "key_of REDIS_RETRY_ON_TIMEOUT = ''REDIS_RETRY_ON_TIMEOUT''"

definition returning :: "('a \<Rightarrow> 'b) \<Rightarrow> error + 'a \<Rightarrow> error + 'b" where
  "returning f r = (case r of Inl e \<Rightarrow> Inl e | Inr v \<Rightarrow> Inr (f v))"

fun resolve :: "'f interp \<Rightarrow> environ \<Rightarrow> field \<Rightarrow> error + 'f pyval" where
  "resolve py env INSTANCE_ID = Inr (opt_str (getenv env ''INSTANCE_ID''))"
| "resolve py env LOCK_KEY = returning PStr (get_required env ''LOCK_KEY'')"
| "resolve py env LOCK_TTL_MS = returning PInt (get_int py env ''LOCK_TTL_MS'' 15000)"
| "resolve py env LOCK_RENEW_EVERY_MS =
     returning PInt (get_int py env ''LOCK_RENEW_EVERY_MS'' 5000)"
| "resolve py env STANDBY_SLEEP_MS = returning PInt (get_int py env ''STANDBY_SLEEP_MS'' 2000)"
| "resolve py env REDIS_HOST = Inr (PStr (getenv_default env ''REDIS_HOST'' ''redis''))"
| "resolve py env REDIS_PORT = returning PInt (get_int py env ''REDIS_PORT'' 6379)"
| "resolve py env REDIS_DB = returning PInt (get_int py env ''REDIS_DB'' 0)"
| "resolve py env REDIS_PASSWORD = Inr (opt_str (getenv env ''REDIS_PASSWORD''))"
| "resolve py env REDIS_SOCKET_CONNECT_TIMEOUT =
     returning PFloat
       (get_float py env ''REDIS_SOCKET_CONNECT_TIMEOUT'' (float_of_literal py ''1.0''))"
| "resolve py env REDIS_SOCKET_TIMEOUT =
     returning PFloat (get_float py env ''REDIS_SOCKET_TIMEOUT'' (float_of_literal py ''1.0''))"
| "resolve py env REDIS_RETRY_ON_TIMEOUT =
     Inr (PBool (str_to_bool (Some (getenv_default env ''REDIS_RETRY_ON_TIMEOUT'' ''true'')) True))"

fun assemble :: "'f interp \<Rightarrow> environ \<Rightarrow> field list \<Rightarrow> error + 'f config" where
  "assemble py env [] = Inr Map.empty"
| "assemble py env (f # fs) =
     on_return (resolve py env f) (\<lambda>v.
     on_return (assemble py env fs) (\<lambda>m. Inr (m(key_of f \<mapsto> v))))"

definition source_order :: "field list" where
  "source_order =
     [LOCK_KEY, LOCK_TTL_MS, LOCK_RENEW_EVERY_MS, STANDBY_SLEEP_MS, REDIS_HOST, REDIS_PORT,
      REDIS_DB, REDIS_PASSWORD, INSTANCE_ID, REDIS_SOCKET_CONNECT_TIMEOUT,
      REDIS_SOCKET_TIMEOUT, REDIS_RETRY_ON_TIMEOUT]"

definition is_reordering :: "field list \<Rightarrow> bool" where
  "is_reordering fs = (distinct fs \<and> set fs = set source_order)"

text \<open>The error of the first field of the list whose resolution raises, if any.\<close>

fun first_error :: "'f interp \<Rightarrow> environ \<Rightarrow> field list \<Rightarrow> error option" where
  "first_error py env [] = None"
| "first_error py env (f # fs) =
     (case resolve py env f of Inl e \<Rightarrow> Some e | Inr v \<Rightarrow> first_error py env fs)"

text \<open>An interpreter for the closed examples: the default digit limit, floats kept as literals.\<close>

definition example_interp :: "string interp" where
  "example_interp = \<lparr>int_max_str_digits = 4300, float_of_literal = (\<lambda>s. s)\<rparr>"

text \<open>
  The digit limit can only be switched off (0) or set to 640 or more
  (\<open>sys.set_int_max_str_digits\<close> rejects anything else).
\<close>

definition valid_interp :: "'f interp \<Rightarrow> bool" where
  "valid_interp py = (int_max_str_digits py = 0 \<or> 640 \<le> int_max_str_digits py)"

text \<open>A reordering of the source's calls that resolves \<open>LOCK_TTL_MS\<close> before \<open>LOCK_KEY\<close>.\<close>

definition ttl_first_order :: "field list" where
  "ttl_first_order =
     [LOCK_TTL_MS, LOCK_KEY, LOCK_RENEW_EVERY_MS, STANDBY_SLEEP_MS, REDIS_HOST, REDIS_PORT,
      REDIS_DB, REDIS_PASSWORD, INSTANCE_ID, REDIS_SOCKET_CONNECT_TIMEOUT,
      REDIS_SOCKET_TIMEOUT, REDIS_RETRY_ON_TIMEOUT]"

subsection \<open>Comparing two returned dictionaries\<close>

text \<open>
  Python's \<open>==\<close> on the values of the dictionary. Two floats are compared by the
  interpreter's float comparison \<open>feq\<close>; every other pair by value. Two calls of
  \<open>get_config\<close> build their floats separately, so no float is compared to itself by
  identity. The values at one key have the same type in both dictionaries.
\<close>

fun py_eq :: "('f \<Rightarrow> 'f \<Rightarrow> bool) \<Rightarrow> 'f pyval \<Rightarrow> 'f pyval \<Rightarrow> bool" where
  "py_eq feq (PFloat a) (PFloat b) = feq a b"
| "py_eq feq a b = (a = b)"

text \<open>The comparison of two dictionaries of \<open>get_config\<close>, key by key.\<close>

definition records_equal :: "('f \<Rightarrow> 'f \<Rightarrow> bool) \<Rightarrow> 'f config \<Rightarrow> 'f config \<Rightarrow> bool" where
  "records_equal feq cfg cfg' =
     list_all (\<lambda>f. case (cfg (key_of f), cfg' (key_of f)) of
                      (Some a, Some b) \<Rightarrow> py_eq feq a b
                    | _ \<Rightarrow> False) source_order"

text \<open>The strings that \<open>float\<close> reads as a NaN: \<open>nan\<close> in any case, signed or not.\<close>

definition is_nan_literal :: "string \<Rightarrow> bool" where
  "is_nan_literal raw =
     (map ascii_lower_char (snd (split_sign (digits_of (num_strip raw)))) = ''nan'')"

definition nan_setting :: "environ \<Rightarrow> string \<Rightarrow> bool" where
  "nan_setting env name = (case env name of None \<Rightarrow> False | Some raw \<Rightarrow> is_nan_literal raw)"

text \<open>
  What is used of the float comparison: a float read from a literal equals itself
  unless the literal is a NaN.
\<close>

definition ieee_eq :: "'f interp \<Rightarrow> ('f \<Rightarrow> 'f \<Rightarrow> bool) \<Rightarrow> bool" where
  "ieee_eq py feq =
     (\<forall>raw. float_literal_ok raw \<longrightarrow>
        feq (float_of_literal py raw) (float_of_literal py raw) = (\<not> is_nan_literal raw))"

text \<open>
  The comparison for the example interpreter, whose floats are their literals: two
  literals are compared as texts, and a NaN equals nothing.
\<close>

definition example_float_eq :: "string \<Rightarrow> string \<Rightarrow> bool" where
  "example_float_eq a b = (\<not> is_nan_literal a \<and> \<not> is_nan_literal b \<and> a = b)"


section \<open>Properties\<close>

subsection \<open>Auxiliary facts\<close>

lemmas coercer_defs =
  get_required_def get_int_def get_float_def getenv_def getenv_default_def
  required_message_def integer_message_def float_message_def opt_str_def

lemmas parser_defs =
  py_strip_def py_isspace_def py_int_def num_strip_def num_isspace_def is_digit_def
  digits_of_def decimal_value_def digit_val_def py_float_def float_literal_ok_def
  is_inf_or_nan_def ascii_lower_char_def decimal_ok_def py_lower_def py_lower_char_def

text \<open>Plain decimal numerals are read by \<open>int\<close> as positional notation.\<close>

lemma is_digit_not_space: "is_digit c \<Longrightarrow> \<not> num_isspace c"
  by (auto simp add: is_digit_def num_isspace_def Let_def)

lemma is_digit_not_mark:
  "is_digit c \<Longrightarrow> c \<noteq> CHR ''_'' \<and> c \<noteq> CHR ''-'' \<and> c \<noteq> CHR ''+''"
  by (auto simp add: is_digit_def Let_def)

lemma strip_unchanged:
  assumes "xs \<noteq> []" and "\<not> P (hd xs)" and "\<not> P (last xs)"
  shows "rev (dropWhile P (rev (dropWhile P xs))) = xs"
proof -
  from assms(1,2) have "dropWhile P xs = xs"
    by (cases xs) simp_all
  moreover from assms(1,3) have "dropWhile P (rev xs) = rev xs"
    by (cases "rev xs") (simp_all add: last_rev [symmetric] hd_rev)
  ultimately show ?thesis by simp
qed

lemma digitpart_digits: "xs \<noteq> [] \<Longrightarrow> list_all is_digit xs \<Longrightarrow> digitpart xs"
proof (induction xs rule: digitpart.induct)
  case 1
  then show ?case by simp
next
  case (2 c)
  then show ?case by simp
next
  case (3 c d r)
  from "3.prems" have d: "is_digit d" and c: "is_digit c" and r: "list_all is_digit (d # r)"
    by simp_all
  from d have "d \<noteq> CHR ''_''" by (simp add: is_digit_not_mark)
  then show ?case using "3.IH"(2) c r by simp
qed

lemma py_int_plain:
  assumes "ds \<noteq> []" and "list_all is_digit ds"
    and "int_max_str_digits py = 0 \<or> length ds \<le> int_max_str_digits py"
  shows "py_int py ds = Some (decimal_value ds)"
proof -
  from assms(1,2) have hd: "is_digit (hd ds)" and "is_digit (last ds)"
    by (simp_all add: list_all_iff)
  then have strip: "num_strip ds = ds"
    unfolding num_strip_def using assms(1) by (intro strip_unchanged is_digit_not_space)
  from hd assms(1) is_digit_not_mark [of "hd ds"] have sign: "split_sign ds = (False, ds)"
    by (cases ds) simp_all
  have "filter (\<lambda>c. c \<noteq> CHR ''_'') ds = ds"
    using assms(2) is_digit_not_mark by (simp add: list_all_iff)
  then have dig: "digits_of ds = ds"
    by (simp add: digits_of_def)
  have lim: "\<not> (0 < int_max_str_digits py \<and> int_max_str_digits py < length ds)"
    using assms(3) by arith
  show ?thesis
    using lim digitpart_digits [OF assms(1,2)]
    by (simp add: py_int_def strip sign dig)
qed

lemma py_int_6380:
  assumes "valid_interp py"
  shows "py_int py ''6380'' = Some 6380"
proof -
  have "int_max_str_digits py = 0 \<or> length ''6380'' \<le> int_max_str_digits py"
    using assms by (auto simp add: valid_interp_def)
  then have "py_int py ''6380'' = Some (decimal_value ''6380'')"
    by (intro py_int_plain) (simp_all add: is_digit_def Let_def)
  then show ?thesis by (simp add: decimal_value_def digit_val_def)
qed

text \<open>Sequencing: the laws used to run and to compare assemblies.\<close>

lemma on_return_Inl: "on_return (Inl e) k = Inl e"
  by (simp add: on_return_def)

lemma on_return_cong_weak: "r = r' \<Longrightarrow> on_return r k = on_return r' k"
  by simp

lemma config_map_order:
  "Map.empty
       (''INSTANCE_ID'' \<mapsto> a1, ''LOCK_KEY'' \<mapsto> a2, ''LOCK_TTL_MS'' \<mapsto> a3,
        ''LOCK_RENEW_EVERY_MS'' \<mapsto> a4, ''STANDBY_SLEEP_MS'' \<mapsto> a5, ''REDIS_HOST'' \<mapsto> a6,
        ''REDIS_PORT'' \<mapsto> a7, ''REDIS_DB'' \<mapsto> a8, ''REDIS_PASSWORD'' \<mapsto> a9,
        ''REDIS_SOCKET_CONNECT_TIMEOUT'' \<mapsto> a10, ''REDIS_SOCKET_TIMEOUT'' \<mapsto> a11,
        ''REDIS_RETRY_ON_TIMEOUT'' \<mapsto> a12) =
   Map.empty
       (''REDIS_RETRY_ON_TIMEOUT'' \<mapsto> a12, ''REDIS_SOCKET_TIMEOUT'' \<mapsto> a11,
        ''REDIS_SOCKET_CONNECT_TIMEOUT'' \<mapsto> a10, ''INSTANCE_ID'' \<mapsto> a1,
        ''REDIS_PASSWORD'' \<mapsto> a9, ''REDIS_DB'' \<mapsto> a8, ''REDIS_PORT'' \<mapsto> a7,
        ''REDIS_HOST'' \<mapsto> a6, ''STANDBY_SLEEP_MS'' \<mapsto> a5, ''LOCK_RENEW_EVERY_MS'' \<mapsto> a4,
        ''LOCK_TTL_MS'' \<mapsto> a3, ''LOCK_KEY'' \<mapsto> a2)"
  by (rule ext) simp

lemma on_return_Inr: "on_return (Inr v) k = k v"
  by (simp add: on_return_def)

lemma on_return_returning: "on_return (returning f r) k = on_return r (\<lambda>v. k (f v))"
  by (cases r) (simp_all add: on_return_def returning_def)

lemma on_return_assoc:
  "on_return (on_return r k1) k2 = on_return r (\<lambda>v. on_return (k1 v) k2)"
  by (cases r) (simp_all add: on_return_def)

lemma get_config_assemble: "get_config py env = assemble py env source_order"
  unfolding get_config_def source_order_def assemble.simps resolve.simps Let_def key_of.simps
  by (simp only: on_return_Inr on_return_returning on_return_assoc config_map_order)

lemmas run_simps = on_return_Inl on_return_Inr

lemma assemble_Inl_iff: "assemble py env fs = Inl e \<longleftrightarrow> first_error py env fs = Some e"
proof (induction fs)
  case Nil
  show ?case by simp
next
  case (Cons f fs)
  show ?case
  proof (cases "resolve py env f")
    case (Inl a)
    then show ?thesis by (simp add: on_return_def)
  next
    case (Inr v)
    then show ?thesis using Cons.IH
      by (cases "assemble py env fs") (simp_all add: on_return_def)
  qed
qed

lemma first_error_None_iff:
  "first_error py env fs = None \<longleftrightarrow> (\<forall>f\<in>set fs. \<exists>v. resolve py env f = Inr v)"
proof (induction fs)
  case Nil
  show ?case by simp
next
  case (Cons f fs)
  then show ?case by (cases "resolve py env f") simp_all
qed

lemma assemble_Inr_iff:
  "(\<exists>m. assemble py env fs = Inr m) \<longleftrightarrow> first_error py env fs = None"
proof (cases "assemble py env fs")
  case (Inl e)
  then show ?thesis using assemble_Inl_iff [of py env fs e] by simp
next
  case (Inr m)
  have "first_error py env fs \<noteq> Some e" for e
    using assemble_Inl_iff [of py env fs e] Inr by simp
  then have "first_error py env fs = None" by (cases "first_error py env fs") auto
  with Inr show ?thesis by simp
qed

lemma inj_key_of: "key_of f = key_of g \<longleftrightarrow> f = g"
  by (cases f; cases g; simp)

lemma inv_key_of: "inv key_of (key_of g) = g"
  by (rule inv_f_f) (simp add: inj_on_def inj_key_of)

lemma assemble_lookup:
  "assemble py env fs = Inr m \<Longrightarrow>
     m k = (if k \<in> key_of ` set fs then Some (projr (resolve py env (inv key_of k))) else None)"
proof (induction fs arbitrary: m)
  case Nil
  then show ?case by auto
next
  case (Cons f fs)
  from Cons.prems obtain v where v: "resolve py env f = Inr v"
    by (cases "resolve py env f") (simp_all add: on_return_def)
  with Cons.prems obtain m' where m': "assemble py env fs = Inr m'"
    and m: "m = m'(key_of f \<mapsto> v)"
    by (cases "assemble py env fs") (auto simp add: on_return_def)
  show ?case
  proof (cases "k = key_of f")
    case True
    then show ?thesis using v by (simp add: m inv_key_of)
  next
    case False
    then show ?thesis using Cons.IH [OF m'] by (simp add: m)
  qed
qed

lemma assemble_reorder:
  assumes "set fs = set gs" and "assemble py env fs = Inr m"
  shows "assemble py env gs = Inr m"
proof -
  from assms(2) have "first_error py env fs = None"
    using assemble_Inr_iff by blast
  with assms(1) have "first_error py env gs = None"
    by (simp add: first_error_None_iff)
  then obtain m' where m': "assemble py env gs = Inr m'"
    using assemble_Inr_iff by blast
  have "m' k = m k" for k
    using assemble_lookup [OF m', of k] assemble_lookup [OF assms(2), of k] assms(1) by simp
  then have "m' = m" by (simp add: fun_eq_iff)
  with m' show ?thesis by simp
qed

lemma resolve_cong:
  "env' (key_of f) = env (key_of f) \<Longrightarrow> resolve py env' f = resolve py env f"
  by (cases f) (simp_all add: get_required_def get_int_def get_float_def getenv_def
      getenv_default_def)

lemma assemble_cong:
  "(\<And>f. f \<in> set fs \<Longrightarrow> env' (key_of f) = env (key_of f)) \<Longrightarrow>
     assemble py env' fs = assemble py env fs"
proof (induction fs)
  case Nil
  show ?case by simp
next
  case (Cons f fs)
  have "resolve py env' f = resolve py env f"
    by (rule resolve_cong) (simp add: Cons.prems)
  moreover have "assemble py env' fs = assemble py env fs"
    by (rule Cons.IH) (simp add: Cons.prems)
  ultimately show ?case by simp
qed

lemma get_config_lookup:
  assumes "get_config py env = Inr cfg"
  shows "cfg (key_of f) = Some (projr (resolve py env f))"
proof -
  have "f \<in> set source_order"
    by (cases f) (simp_all add: source_order_def)
  then show ?thesis
    using assemble_lookup [of py env source_order cfg "key_of f"] assms
    by (simp add: get_config_assemble inv_key_of)
qed

lemma example_ieee_eq: "ieee_eq example_interp example_float_eq"
  by (simp add: ieee_eq_def example_interp_def example_float_eq_def)

lemma one_literal: "float_literal_ok ''1.0''" "\<not> is_nan_literal ''1.0''"
  by (simp_all add: parser_defs is_nan_literal_def Let_def)

lemma get_float_self_equal:
  assumes "ieee_eq py feq" and "\<not> nan_setting env name"
    and "get_float py env name (float_of_literal py ''1.0'') = Inr x"
  shows "feq x x"
proof (cases "env name")
  case None
  with assms(3) have "x = float_of_literal py ''1.0''"
    by (simp add: get_float_def getenv_def)
  with assms(1) one_literal show ?thesis by (simp add: ieee_eq_def)
next
  case (Some raw)
  with assms(3) have ok: "float_literal_ok raw" and x: "x = float_of_literal py raw"
    by (auto simp add: get_float_def getenv_def py_float_def split: if_splits)
  from assms(2) Some have "\<not> is_nan_literal raw" by (simp add: nan_setting_def)
  with assms(1) ok x show ?thesis by (simp add: ieee_eq_def)
qed

lemma py_eq_same: "(\<And>x. v = PFloat x \<Longrightarrow> feq x x) \<Longrightarrow> py_eq feq v v"
  by (cases v) simp_all

lemma resolve_self_equal:
  assumes "ieee_eq py feq"
    and "\<not> nan_setting env ''REDIS_SOCKET_CONNECT_TIMEOUT''"
    and "\<not> nan_setting env ''REDIS_SOCKET_TIMEOUT''"
    and "resolve py env f = Inr v"
  shows "py_eq feq v v"
proof (rule py_eq_same)
  fix x assume v: "v = PFloat x"
  show "feq x x"
  proof (cases f)
    case REDIS_SOCKET_CONNECT_TIMEOUT
    with assms(4) v have "get_float py env ''REDIS_SOCKET_CONNECT_TIMEOUT'' (float_of_literal py ''1.0'') = Inr x"
      by (simp add: returning_def split: sum.splits)
    then show ?thesis by (rule get_float_self_equal [OF assms(1,2)])
  next
    case REDIS_SOCKET_TIMEOUT
    with assms(4) v have "get_float py env ''REDIS_SOCKET_TIMEOUT'' (float_of_literal py ''1.0'') = Inr x"
      by (simp add: returning_def split: sum.splits)
    then show ?thesis by (rule get_float_self_equal [OF assms(1,3)])
  qed (use assms(4) v in \<open>auto simp add: returning_def opt_str_def split: sum.splits option.splits\<close>)
qed

lemma get_config_self_equal:
  assumes "ieee_eq py feq"
    and "\<not> nan_setting env ''REDIS_SOCKET_CONNECT_TIMEOUT''"
    and "\<not> nan_setting env ''REDIS_SOCKET_TIMEOUT''"
    and "get_config py env = Inr cfg"
  shows "records_equal feq cfg cfg"
proof -
  have "py_eq feq (projr (resolve py env f)) (projr (resolve py env f))" for f
  proof -
    from assms(4) have "first_error py env source_order = None"
      using assemble_Inr_iff [of py env source_order] by (simp add: get_config_assemble)
    moreover have "f \<in> set source_order" by (cases f) (simp_all add: source_order_def)
    ultimately obtain v where "resolve py env f = Inr v"
      by (auto simp add: first_error_None_iff)
    with resolve_self_equal [OF assms(1-3)] show ?thesis by simp
  qed
  then show ?thesis
    by (simp add: records_equal_def list_all_iff get_config_lookup [OF assms(4)])
qed




subsection \<open>The coercers\<close>

lemma py_strip_Nil_iff: "py_strip v = [] \<longleftrightarrow> list_all py_isspace v"
proof -
  have "dropWhile P (rev (dropWhile P xs)) = [] \<longleftrightarrow> list_all P xs"
    for P :: "char \<Rightarrow> bool" and xs
    by (induction xs) (auto simp: list_all_iff)
  then show ?thesis by (simp add: py_strip_def)
qed

text \<open>
  Claim C3. \<open>str_to_bool\<close> returns the default when the value is absent; for a
  present value it returns true exactly when the lower-cased value is one of
  \<open>1\<close>, \<open>true\<close>, \<open>yes\<close>, \<open>y\<close>, \<open>t\<close>, and false for every other string. The function
  has no failing path: \<open>str.lower\<close> and the membership test cannot raise on a
  string, so its result type is \<^typ>\<open>bool\<close> and the equations below cover every input.
\<close>

theorem str_to_bool_contract:
  "str_to_bool None dflt = dflt \<and>
   (str_to_bool (Some v) dflt \<longleftrightarrow> py_lower v \<in> {''1'', ''true'', ''yes'', ''y'', ''t''})"
  by simp

text \<open>
  Claim C4. \<open>get_required\<close> raises the \<open>RuntimeError\<close> that names the setting when
  the setting is absent or its value strips to the empty string; otherwise it
  returns the value as found, untrimmed.
\<close>

theorem get_required_contract:
  "(env name = None \<longrightarrow>
      get_required env name =
        Inl (RuntimeError (''Environment variable '' @ name @ '' is required for startup''))) \<and>
   (env name = Some v \<and> py_strip v = [] \<longrightarrow>
      get_required env name =
        Inl (RuntimeError (''Environment variable '' @ name @ '' is required for startup''))) \<and>
   (env name = Some v \<and> py_strip v \<noteq> [] \<longrightarrow> get_required env name = Inr v)"
  by (simp add: get_required_def getenv_def required_message_def)

theorem get_required_contract_witness:
  "get_required Map.empty ''LOCK_KEY'' =
     Inl (RuntimeError ''Environment variable LOCK_KEY is required for startup'') \<and>
   get_required [''LOCK_KEY'' \<mapsto> ''   ''] ''LOCK_KEY'' =
     Inl (RuntimeError ''Environment variable LOCK_KEY is required for startup'') \<and>
   get_required [''LOCK_KEY'' \<mapsto> '' svc-a ''] ''LOCK_KEY'' = Inr '' svc-a ''"
  using get_required_contract [of Map.empty "''LOCK_KEY''" "[]"]
    get_required_contract [of "[''LOCK_KEY'' \<mapsto> ''   '']" "''LOCK_KEY''" "''   ''"]
    get_required_contract [of "[''LOCK_KEY'' \<mapsto> '' svc-a '']" "''LOCK_KEY''" "'' svc-a ''"]
  by (simp add: py_strip_def py_isspace_def)

text \<open>
  Claim C2. \<open>get_int\<close> has three outcomes and no other: the default when the
  setting is absent; the parsed value when \<open>int\<close> accepts the raw string; the
  \<open>ValueError\<close> whose message holds the setting's name and the raw string when
  \<open>int\<close> rejects it.
\<close>

theorem get_int_contract:
  "(env name = None \<longrightarrow> get_int py env name dflt = Inr dflt) \<and>
   (env name = Some raw \<and> py_int py raw = Some v \<longrightarrow> get_int py env name dflt = Inr v) \<and>
   (env name = Some raw \<and> py_int py raw = None \<longrightarrow>
      get_int py env name dflt =
        Inl (ValueError (''Environment variable '' @ name @ '' must be an integer, got '' @
                         [CHR 0x27] @ raw @ [CHR 0x27]))) \<and>
   (get_int py env name dflt = Inr dflt \<or>
    (\<exists>r w. env name = Some r \<and> py_int py r = Some w \<and> get_int py env name dflt = Inr w) \<or>
    (\<exists>r. env name = Some r \<and>
         get_int py env name dflt = Inl (ValueError (integer_message name r))))"
  by (auto simp add: get_int_def getenv_def integer_message_def split: option.splits)

theorem get_int_contract_witness:
  "get_int example_interp Map.empty ''REDIS_PORT'' 6379 = Inr 6379 \<and>
   get_int example_interp [''REDIS_PORT'' \<mapsto> ''6380''] ''REDIS_PORT'' 6379 = Inr 6380 \<and>
   get_int example_interp [''REDIS_PORT'' \<mapsto> ''63x''] ''REDIS_PORT'' 6379 =
     Inl (ValueError (''Environment variable REDIS_PORT must be an integer, got '' @
                      [CHR 0x27] @ ''63x'' @ [CHR 0x27]))"
  using
    get_int_contract [where env = Map.empty and name = "''REDIS_PORT''"
      and py = example_interp and dflt = 6379]
    get_int_contract [where env = "[''REDIS_PORT'' \<mapsto> ''6380'']" and name = "''REDIS_PORT''"
      and raw = "''6380''" and py = example_interp and v = 6380 and dflt = 6379]
    get_int_contract [where env = "[''REDIS_PORT'' \<mapsto> ''63x'']" and name = "''REDIS_PORT''"
      and raw = "''63x''" and py = example_interp and dflt = 6379]
  by (simp add: py_int_def num_strip_def num_isspace_def is_digit_def digits_of_def
      decimal_value_def digit_val_def example_interp_def)

text \<open>
  Claim C10. A numeric setting that is present with the empty string as its value is
  a malformed value, not an absent one: \<open>get_int\<close> and \<open>get_float\<close> raise their
  \<open>ValueError\<close> (the message quoting the empty raw value) and do not return the default.
\<close>

theorem empty_numeric_value_is_invalid:
  assumes "env name = Some []"
  shows "get_int py env name dflt =
           Inl (ValueError (''Environment variable '' @ name @ '' must be an integer, got '' @
                            [CHR 0x27, CHR 0x27])) \<and>
         get_float py env name fdflt =
           Inl (ValueError (''Environment variable '' @ name @ '' must be a float, got '' @
                            [CHR 0x27, CHR 0x27]))"
proof -
  have "py_int py [] = None"
    by (simp add: py_int_def num_strip_def digits_of_def)
  moreover have "py_float py [] = None"
    by (simp add: parser_defs Let_def)
  ultimately show ?thesis
    using assms by (simp add: get_int_def get_float_def getenv_def integer_message_def
        float_message_def)
qed

theorem empty_numeric_value_is_invalid_witness:
  "get_int example_interp [''REDIS_DB'' \<mapsto> ''''] ''REDIS_DB'' 0 =
     Inl (ValueError (''Environment variable REDIS_DB must be an integer, got '' @
                      [CHR 0x27, CHR 0x27])) \<and>
   get_float example_interp [''REDIS_SOCKET_TIMEOUT'' \<mapsto> ''''] ''REDIS_SOCKET_TIMEOUT'' ''1.0'' =
     Inl (ValueError (''Environment variable REDIS_SOCKET_TIMEOUT must be a float, got '' @
                      [CHR 0x27, CHR 0x27]))"
  using
    empty_numeric_value_is_invalid [where env = "[''REDIS_DB'' \<mapsto> '''']"
      and name = "''REDIS_DB''" and py = example_interp and dflt = 0]
    empty_numeric_value_is_invalid [where env = "[''REDIS_SOCKET_TIMEOUT'' \<mapsto> '''']"
      and name = "''REDIS_SOCKET_TIMEOUT''" and py = example_interp and fdflt = "''1.0''"]
  by simp




subsection \<open>The assembly\<close>

text \<open>
  Claim C1. When \<open>LOCK_KEY\<close> is absent, or set to a value that strips to the empty
  string, \<open>get_config\<close> raises the \<open>RuntimeError\<close> naming \<open>LOCK_KEY\<close>, whatever the
  rest of the environment holds, and returns no dictionary.
\<close>

theorem get_config_lock_key_required:
  assumes "env ''LOCK_KEY'' = None \<or> (env ''LOCK_KEY'' = Some v \<and> py_strip v = [])"
  shows "get_config py env =
           Inl (RuntimeError ''Environment variable LOCK_KEY is required for startup'') \<and>
         (\<forall>cfg. get_config py env \<noteq> Inr cfg)"
proof -
  from assms have "get_required env ''LOCK_KEY'' =
      Inl (RuntimeError ''Environment variable LOCK_KEY is required for startup'')"
    by (auto simp add: get_required_def getenv_def required_message_def)
  then show ?thesis
    by (simp add: get_config_def run_simps cong: on_return_cong_weak)
qed

theorem get_config_lock_key_required_witness:
  "get_config example_interp [''REDIS_PORT'' \<mapsto> ''6380''] =
     Inl (RuntimeError ''Environment variable LOCK_KEY is required for startup'') \<and>
   get_config example_interp [''LOCK_KEY'' \<mapsto> ''''] =
     Inl (RuntimeError ''Environment variable LOCK_KEY is required for startup'') \<and>
   get_config example_interp [''LOCK_KEY'' \<mapsto> ''   ''] =
     Inl (RuntimeError ''Environment variable LOCK_KEY is required for startup'')"
  using
    get_config_lock_key_required [where env = "[''REDIS_PORT'' \<mapsto> ''6380'']"
      and py = example_interp]
    get_config_lock_key_required [where env = "[''LOCK_KEY'' \<mapsto> '''']" and v = "''''"
      and py = example_interp]
    get_config_lock_key_required [where env = "[''LOCK_KEY'' \<mapsto> ''   '']" and v = "''   ''"
      and py = example_interp]
  by (simp add: py_strip_def py_isspace_def)

text \<open>
  Claim C6. With \<open>LOCK_KEY=svc-a\<close>, \<open>REDIS_PORT=6380\<close> and nothing else set,
  \<open>get_config\<close> returns a dictionary with \<open>LOCK_KEY\<close> the string \<open>svc-a\<close>,
  \<open>REDIS_PORT\<close> the integer 6380, \<open>REDIS_HOST\<close> the string \<open>redis\<close>, \<open>LOCK_TTL_MS\<close>
  15000 and \<open>REDIS_RETRY_ON_TIMEOUT\<close> true.
\<close>

theorem get_config_example:
  assumes "valid_interp py"
  shows "\<exists>cfg. get_config py [''LOCK_KEY'' \<mapsto> ''svc-a'', ''REDIS_PORT'' \<mapsto> ''6380''] = Inr cfg \<and>
     cfg ''LOCK_KEY'' = Some (PStr ''svc-a'') \<and>
     cfg ''REDIS_PORT'' = Some (PInt 6380) \<and>
     cfg ''REDIS_HOST'' = Some (PStr ''redis'') \<and>
     cfg ''LOCK_TTL_MS'' = Some (PInt 15000) \<and>
     cfg ''REDIS_RETRY_ON_TIMEOUT'' = Some (PBool True)"
  by (simp add: get_config_def run_simps coercer_defs py_int_6380 [OF assms] py_strip_def
      py_isspace_def py_lower_def py_lower_char_def cong: on_return_cong_weak)

theorem get_config_example_witness:
  "valid_interp example_interp \<and>
   (\<exists>cfg. get_config example_interp [''LOCK_KEY'' \<mapsto> ''svc-a'', ''REDIS_PORT'' \<mapsto> ''6380''] = Inr cfg \<and>
     cfg ''LOCK_KEY'' = Some (PStr ''svc-a'') \<and>
     cfg ''REDIS_PORT'' = Some (PInt 6380) \<and>
     cfg ''REDIS_HOST'' = Some (PStr ''redis'') \<and>
     cfg ''LOCK_TTL_MS'' = Some (PInt 15000) \<and>
     cfg ''REDIS_RETRY_ON_TIMEOUT'' = Some (PBool True))"
proof -
  have v: "valid_interp example_interp"
    by (simp add: valid_interp_def example_interp_def)
  show ?thesis using v get_config_example [OF v] by simp
qed

text \<open>
  Claim C9. In a returned dictionary the optional string settings hold the value
  found in the environment as it is, blank or not; \<open>REDIS_HOST\<close> falls back to
  \<open>redis\<close>, and \<open>INSTANCE_ID\<close> and \<open>REDIS_PASSWORD\<close> to \<open>None\<close>, only when the
  setting is absent, and the key is present in the dictionary in either case.
\<close>

theorem optional_strings_verbatim:
  assumes "get_config py env = Inr cfg"
  shows "cfg ''REDIS_HOST'' =
           Some (PStr (case env ''REDIS_HOST'' of None \<Rightarrow> ''redis'' | Some v \<Rightarrow> v)) \<and>
         cfg ''INSTANCE_ID'' =
           Some (case env ''INSTANCE_ID'' of None \<Rightarrow> PNone | Some v \<Rightarrow> PStr v) \<and>
         cfg ''REDIS_PASSWORD'' =
           Some (case env ''REDIS_PASSWORD'' of None \<Rightarrow> PNone | Some v \<Rightarrow> PStr v)"
  using get_config_lookup [OF assms, of REDIS_HOST] get_config_lookup [OF assms, of INSTANCE_ID]
    get_config_lookup [OF assms, of REDIS_PASSWORD]
  by (simp add: getenv_def getenv_default_def opt_str_def)

theorem optional_strings_verbatim_witness:
  "\<exists>cfg. get_config example_interp
      [''LOCK_KEY'' \<mapsto> ''svc-a'', ''REDIS_HOST'' \<mapsto> ''  '', ''INSTANCE_ID'' \<mapsto> ''''] = Inr cfg \<and>
     cfg ''REDIS_HOST'' = Some (PStr ''  '') \<and>
     cfg ''INSTANCE_ID'' = Some (PStr '''') \<and>
     cfg ''REDIS_PASSWORD'' = Some PNone"
proof -
  have "\<exists>cfg. get_config example_interp
      [''LOCK_KEY'' \<mapsto> ''svc-a'', ''REDIS_HOST'' \<mapsto> ''  '', ''INSTANCE_ID'' \<mapsto> ''''] = Inr cfg"
    by (simp add: get_config_def run_simps coercer_defs py_strip_def py_isspace_def
        cong: on_return_cong_weak)
  then obtain cfg where cfg: "get_config example_interp
      [''LOCK_KEY'' \<mapsto> ''svc-a'', ''REDIS_HOST'' \<mapsto> ''  '', ''INSTANCE_ID'' \<mapsto> ''''] = Inr cfg"
    by blast
  from optional_strings_verbatim [OF cfg] cfg show ?thesis by simp
qed

text \<open>
  Claim C8, as amended. \<open>get_config\<close> only reads the environment, and only the
  twelve settings: when a call returns a dictionary, a second call against an
  environment with the same values for these settings returns a dictionary, and the
  two are equal field for field under \<open>==\<close>, provided neither float setting is set
  to a NaN.
\<close>

theorem get_config_repeatable:
  assumes "get_config py env = Inr cfg" and "\<forall>f. env' (key_of f) = env (key_of f)"
    and "ieee_eq py feq"
    and "\<not> nan_setting env ''REDIS_SOCKET_CONNECT_TIMEOUT''"
    and "\<not> nan_setting env ''REDIS_SOCKET_TIMEOUT''"
  shows "\<exists>cfg'. get_config py env' = Inr cfg' \<and> records_equal feq cfg cfg'"
proof -
  have "assemble py env' source_order = assemble py env source_order"
    by (rule assemble_cong) (simp add: assms(2))
  with assms(1) have "get_config py env' = Inr cfg"
    by (simp add: get_config_assemble)
  moreover have "records_equal feq cfg cfg"
    by (rule get_config_self_equal [OF assms(3-5) assms(1)])
  ultimately show ?thesis by blast
qed

theorem get_config_repeatable_witness:
  "ieee_eq example_interp example_float_eq \<and>
   (\<exists>cfg cfg'. get_config example_interp [''LOCK_KEY'' \<mapsto> ''svc-a'', ''REDIS_SOCKET_TIMEOUT'' \<mapsto> ''2.5''] = Inr cfg \<and>
     get_config example_interp [''LOCK_KEY'' \<mapsto> ''svc-a'', ''REDIS_SOCKET_TIMEOUT'' \<mapsto> ''2.5''] = Inr cfg' \<and>
     records_equal example_float_eq cfg cfg')"
proof -
  let ?env = "[''LOCK_KEY'' \<mapsto> ''svc-a'', ''REDIS_SOCKET_TIMEOUT'' \<mapsto> ''2.5'']"
  have "\<exists>cfg. get_config example_interp ?env = Inr cfg"
    by (simp add: get_config_def run_simps coercer_defs parser_defs Let_def
        cong: on_return_cong_weak)
  then obtain cfg where cfg: "get_config example_interp ?env = Inr cfg"
    by blast
  have n1: "\<not> nan_setting ?env ''REDIS_SOCKET_CONNECT_TIMEOUT''"
    by (simp add: nan_setting_def)
  have n2: "\<not> nan_setting ?env ''REDIS_SOCKET_TIMEOUT''"
    by (simp add: nan_setting_def is_nan_literal_def parser_defs Let_def)
  from get_config_repeatable [OF cfg _ example_ieee_eq n1 n2, of ?env] cfg example_ieee_eq
  show ?thesis by blast
qed

text \<open>
  The claim as stated fails on a NaN: with \<open>REDIS_SOCKET_TIMEOUT=nan\<close> the call
  returns a dictionary, \<open>float\<close> accepting \<open>nan\<close>, and its \<open>REDIS_SOCKET_TIMEOUT\<close>
  field does not compare equal to that of a second call.
\<close>

theorem nan_setting_not_self_equal:
  "\<not> isl (get_config example_interp [''LOCK_KEY'' \<mapsto> ''svc-a'', ''REDIS_SOCKET_TIMEOUT'' \<mapsto> ''nan'']) \<and>
   \<not> records_equal example_float_eq
       (projr (get_config example_interp
                 [''LOCK_KEY'' \<mapsto> ''svc-a'', ''REDIS_SOCKET_TIMEOUT'' \<mapsto> ''nan'']))
       (projr (get_config example_interp
                 [''LOCK_KEY'' \<mapsto> ''svc-a'', ''REDIS_SOCKET_TIMEOUT'' \<mapsto> ''nan'']))"
proof -
  let ?env = "[''LOCK_KEY'' \<mapsto> ''svc-a'', ''REDIS_SOCKET_TIMEOUT'' \<mapsto> ''nan'']"
  have "\<exists>cfg. get_config example_interp ?env = Inr cfg"
    by (simp add: get_config_def run_simps coercer_defs parser_defs Let_def
        cong: on_return_cong_weak)
  then obtain cfg where cfg: "get_config example_interp ?env = Inr cfg"
    by blast
  have "cfg (key_of REDIS_SOCKET_TIMEOUT) = Some (PFloat ''nan'')"
    using get_config_lookup [OF cfg, of REDIS_SOCKET_TIMEOUT]
    by (simp add: returning_def coercer_defs parser_defs Let_def example_interp_def)
  moreover have "\<not> example_float_eq ''nan'' ''nan''"
    by (simp add: example_float_eq_def is_nan_literal_def parser_defs Let_def)
  ultimately have "\<not> records_equal example_float_eq cfg cfg"
    by (simp add: records_equal_def source_order_def)
  with cfg show ?thesis by simp
qed

lemma ttl_first_is_reordering: "is_reordering ttl_first_order"
  by (auto simp add: is_reordering_def ttl_first_order_def source_order_def)

text \<open>
  Claim C7, as amended. For every reordering of the twelve resolutions: when
  \<open>get_config\<close> returns a dictionary the reordered assembly returns the same one;
  when \<open>get_config\<close> raises, the reordered assembly raises too; and the error an
  assembly raises is that of the first field, in the order it uses, whose
  resolution raises.
\<close>

theorem reordering_outcome:
  assumes "is_reordering fs"
  shows "(get_config py env = Inr cfg \<longrightarrow> assemble py env fs = Inr cfg) \<and>
         ((\<exists>e. get_config py env = Inl e) \<longrightarrow> (\<exists>e'. assemble py env fs = Inl e')) \<and>
         (assemble py env fs = Inl e \<longleftrightarrow> first_error py env fs = Some e)"
proof (intro conjI impI)
  from assms have set: "set source_order = set fs"
    by (simp add: is_reordering_def)
  show "assemble py env fs = Inr cfg" if "get_config py env = Inr cfg"
    using that assemble_reorder [OF set] by (simp add: get_config_assemble)
  show "\<exists>e'. assemble py env fs = Inl e'" if "\<exists>e. get_config py env = Inl e"
  proof (cases "assemble py env fs")
    case (Inl e')
    then show ?thesis by blast
  next
    case (Inr m)
    then have "get_config py env = Inr m"
      using assemble_reorder [OF set [symmetric]] by (simp add: get_config_assemble)
    with that show ?thesis by simp
  qed
  show "assemble py env fs = Inl e \<longleftrightarrow> first_error py env fs = Some e"
    by (rule assemble_Inl_iff)
qed

theorem reordering_outcome_witness:
  "is_reordering ttl_first_order \<and>
   (\<exists>cfg. get_config example_interp [''LOCK_KEY'' \<mapsto> ''svc-a'', ''REDIS_PORT'' \<mapsto> ''6380''] = Inr cfg \<and>
      assemble example_interp [''LOCK_KEY'' \<mapsto> ''svc-a'', ''REDIS_PORT'' \<mapsto> ''6380'']
        ttl_first_order = Inr cfg) \<and>
   (\<exists>e'. assemble example_interp [''REDIS_DB'' \<mapsto> ''zero''] ttl_first_order = Inl e')"
proof (intro conjI)
  show r: "is_reordering ttl_first_order"
    by (rule ttl_first_is_reordering)
  have "\<exists>cfg. get_config example_interp [''LOCK_KEY'' \<mapsto> ''svc-a'', ''REDIS_PORT'' \<mapsto> ''6380''] = Inr cfg"
    by (simp add: get_config_def run_simps coercer_defs parser_defs example_interp_def
        cong: on_return_cong_weak)
  then obtain cfg where
    cfg: "get_config example_interp [''LOCK_KEY'' \<mapsto> ''svc-a'', ''REDIS_PORT'' \<mapsto> ''6380''] = Inr cfg"
    by blast
  with reordering_outcome [OF r, of example_interp
      "[''LOCK_KEY'' \<mapsto> ''svc-a'', ''REDIS_PORT'' \<mapsto> ''6380'']" cfg]
  show "\<exists>cfg. get_config example_interp [''LOCK_KEY'' \<mapsto> ''svc-a'', ''REDIS_PORT'' \<mapsto> ''6380''] = Inr cfg \<and>
      assemble example_interp [''LOCK_KEY'' \<mapsto> ''svc-a'', ''REDIS_PORT'' \<mapsto> ''6380'']
        ttl_first_order = Inr cfg"
    by blast
  have "\<exists>e. get_config example_interp [''REDIS_DB'' \<mapsto> ''zero''] = Inl e"
    by (simp add: get_config_def run_simps coercer_defs cong: on_return_cong_weak)
  with reordering_outcome [OF r, of example_interp "[''REDIS_DB'' \<mapsto> ''zero'']"]
  show "\<exists>e'. assemble example_interp [''REDIS_DB'' \<mapsto> ''zero''] ttl_first_order = Inl e'"
    by blast
qed

text \<open>
  The claim as stated fails on the error: with \<open>LOCK_KEY\<close> absent and
  \<open>LOCK_TTL_MS=soon\<close>, \<open>get_config\<close> raises the \<open>RuntimeError\<close> for \<open>LOCK_KEY\<close>,
  and the assembly that resolves \<open>LOCK_TTL_MS\<close> first raises the \<open>ValueError\<close> for
  \<open>LOCK_TTL_MS\<close>.
\<close>

theorem reordering_changes_error:
  "is_reordering ttl_first_order \<and>
   get_config example_interp [''LOCK_TTL_MS'' \<mapsto> ''soon''] =
     Inl (RuntimeError ''Environment variable LOCK_KEY is required for startup'') \<and>
   assemble example_interp [''LOCK_TTL_MS'' \<mapsto> ''soon''] ttl_first_order =
     Inl (ValueError (''Environment variable LOCK_TTL_MS must be an integer, got '' @
                      [CHR 0x27] @ ''soon'' @ [CHR 0x27]))"
proof (intro conjI)
  show "is_reordering ttl_first_order"
    by (rule ttl_first_is_reordering)
  show "get_config example_interp [''LOCK_TTL_MS'' \<mapsto> ''soon''] =
     Inl (RuntimeError ''Environment variable LOCK_KEY is required for startup'')"
    by (simp add: get_config_def run_simps coercer_defs cong: on_return_cong_weak)
  show "assemble example_interp [''LOCK_TTL_MS'' \<mapsto> ''soon''] ttl_first_order =
     Inl (ValueError (''Environment variable LOCK_TTL_MS must be an integer, got '' @
                      [CHR 0x27] @ ''soon'' @ [CHR 0x27]))"
    by (simp add: ttl_first_order_def run_simps returning_def coercer_defs parser_defs
        cong: on_return_cong_weak)
qed

end
